theory Spec2Isabelle
  imports Main "HOL-Library.AList"
begin

section \<open>JavaScript strings\<close>

text \<open>
  A JavaScript string is a sequence of UTF-16 code units. The model uses \<open>string\<close>,
  reading each \<open>char\<close> as the code unit with the same number, so it covers the strings
  whose code units are below 256 (U+0000 to U+00FF); \<open>length\<close> is \<open>.length\<close>.
\<close>

definition code :: "char \<Rightarrow> nat" where
  "code c = of_char c"

definition isWhiteSpace :: "char \<Rightarrow> bool" where
  \<comment> \<open>WhiteSpace and LineTerminator below U+0100: TAB, LF, VT, FF, CR, SP, NBSP.\<close>
  "isWhiteSpace c = (code c \<in> {9, 10, 11, 12, 13, 32, 160})"

definition trimStart :: "string \<Rightarrow> string" where
  "trimStart s = dropWhile isWhiteSpace s"

definition trim :: "string \<Rightarrow> string" where
  \<comment> \<open>\<open>String.prototype.trim\<close>\<close>
  "trim s = rev (dropWhile isWhiteSpace (rev (dropWhile isWhiteSpace s)))"

definition lowerChar :: "char \<Rightarrow> char" where
  \<comment> \<open>A to Z, and the Latin-1 capitals U+00C0 to U+00DE without the sign U+00D7.\<close>
  "lowerChar c =
     (let n = code c
      in if (65 \<le> n \<and> n \<le> 90) \<or> (192 \<le> n \<and> n \<le> 222 \<and> n \<noteq> 215)
         then char_of (n + 32) else c)"

definition toLowerCase :: "string \<Rightarrow> string" where
  "toLowerCase s = map lowerChar s"

fun join :: "string \<Rightarrow> string list \<Rightarrow> string" where
  \<comment> \<open>\<open>Array.prototype.join\<close> on an array of strings\<close>
  "join sep [] = []"
| "join sep [x] = x"
| "join sep (x # y # ys) = x @ sep @ join sep (y # ys)"

fun startsWith :: "string \<Rightarrow> string \<Rightarrow> bool" where
  "startsWith s [] = True"
| "startsWith [] (q # qs) = False"
| "startsWith (c # cs) (q # qs) = (c = q \<and> startsWith cs qs)"

fun includesStr :: "string \<Rightarrow> string \<Rightarrow> bool" where
  \<comment> \<open>\<open>q\<close> occurs in \<open>s\<close> as a contiguous substring\<close>
  "includesStr [] q = (q = [])"
| "includesStr (c # cs) q = (startsWith (c # cs) q \<or> includesStr cs q)"


section \<open>The error formatter (src/utils/formatZodError.js)\<close>

text \<open>
  \<open>zodError.format()\<close> returns an object whose property \<open>_errors\<close> is the array of
  the messages at this level and whose other properties are objects of the same shape,
  one per key below this level, in insertion order.
\<close>

datatype formatted = Formatted (errors_of: "string list") (fields_of: "(string \<times> formatted) list")

definition ownKeys :: "formatted \<Rightarrow> string list" where
  \<comment> \<open>the keys \<open>for (const field in formatted)\<close> enumerates: \<open>_errors\<close> is set first\<close>
  "ownKeys f = ''_errors'' # map fst (fields_of f)"

definition fieldMessage :: "string \<Rightarrow> string list \<Rightarrow> string" where
  \<comment> \<open>lines 10 to 13: the value stored for a field with the messages \<open>fieldErrors\<close>\<close>
  "fieldMessage field fieldErrors =
     (let error = join '', '' fieldErrors
      in if trim (toLowerCase error) = ''required''
         then ''The '' @ field @ '' field is required''
         else error)"

definition fieldErrorsOf :: "formatted \<Rightarrow> string \<Rightarrow> string list option" where
  \<comment> \<open>\<open>formatted[field]?._errors\<close>, \<open>None\<close> for \<open>undefined\<close>\<close>
  "fieldErrorsOf f field = map_option errors_of (map_of (fields_of f) field)"

definition formatField :: "formatted \<Rightarrow> (string \<times> string) list \<Rightarrow> string \<Rightarrow> (string \<times> string) list" where
  \<comment> \<open>one turn of the loop: \<open>errors\<close> is the object built so far\<close>
  "formatField f errors field =
     (if field = ''_errors'' then errors
      else case fieldErrorsOf f field of
             None \<Rightarrow> errors
           | Some fieldErrors \<Rightarrow>
               if 0 < length fieldErrors
               then AList.update field (fieldMessage field fieldErrors) errors
               else errors)"

definition formatFormatted :: "formatted \<Rightarrow> (string \<times> string) list" where
  \<comment> \<open>lines 2 and 5 to 17 of \<open>formatZodError\<close>, on the value of \<open>zodError.format()\<close>\<close>
  "formatFormatted f = foldl (formatField f) [] (ownKeys f)"


section \<open>Numbers read from strings\<close>

text \<open>
  \<open>isNaN(id)\<close> on a string converts it with \<open>StringToNumber\<close>: the result is NaN
  exactly when the string, with white space trimmed at both ends, is neither empty nor a
  \<open>StrNumericLiteral\<close> of ECMAScript's grammar.
\<close>

definition isDigit :: "char \<Rightarrow> bool" where
  "isDigit c = (48 \<le> code c \<and> code c \<le> 57)"

definition isHexDigit :: "char \<Rightarrow> bool" where
  "isHexDigit c = (isDigit c \<or> (97 \<le> code c \<and> code c \<le> 102) \<or> (65 \<le> code c \<and> code c \<le> 70))"

definition isOctalDigit :: "char \<Rightarrow> bool" where
  "isOctalDigit c = (48 \<le> code c \<and> code c \<le> 55)"

definition isBinaryDigit :: "char \<Rightarrow> bool" where
  "isBinaryDigit c = (c = CHR ''0'' \<or> c = CHR ''1'')"

definition digits1 :: "(char \<Rightarrow> bool) \<Rightarrow> string \<Rightarrow> bool" where
  \<comment> \<open>one or more digits of the given kind and nothing else\<close>
  "digits1 p s = (s \<noteq> [] \<and> list_all p s)"

definition stripSign :: "string \<Rightarrow> string" where
  "stripSign s =
     (case s of [] \<Rightarrow> [] | c # cs \<Rightarrow> if c = CHR ''+'' \<or> c = CHR ''-'' then cs else s)"

definition isExponentPart :: "string \<Rightarrow> bool" where
  "isExponentPart s =
     (case s of [] \<Rightarrow> False
      | e # r \<Rightarrow> (e = CHR ''e'' \<or> e = CHR ''E'') \<and> digits1 isDigit (stripSign r))"

definition isStrUnsignedDecimalLiteral :: "string \<Rightarrow> bool" where
  "isStrUnsignedDecimalLiteral s =
     (s = ''Infinity'' \<or>
      (let ds = takeWhile isDigit s; r = dropWhile isDigit s
       in case r of
            [] \<Rightarrow> ds \<noteq> []
          | c # r' \<Rightarrow>
              if c = CHR ''.''
              then (let fs = takeWhile isDigit r'; r'' = dropWhile isDigit r'
                    in (ds \<noteq> [] \<or> fs \<noteq> []) \<and> (r'' = [] \<or> isExponentPart r''))
              else ds \<noteq> [] \<and> isExponentPart r))"

definition isNonDecimalIntegerLiteral :: "string \<Rightarrow> bool" where
  "isNonDecimalIntegerLiteral s =
     (case s of
        z # x # r \<Rightarrow>
          z = CHR ''0'' \<and>
          (((x = CHR ''x'' \<or> x = CHR ''X'') \<and> digits1 isHexDigit r) \<or>
           ((x = CHR ''o'' \<or> x = CHR ''O'') \<and> digits1 isOctalDigit r) \<or>
           ((x = CHR ''b'' \<or> x = CHR ''B'') \<and> digits1 isBinaryDigit r))
      | _ \<Rightarrow> False)"

definition isStrNumericLiteral :: "string \<Rightarrow> bool" where
  "isStrNumericLiteral s =
     (isStrUnsignedDecimalLiteral (stripSign s) \<or> isNonDecimalIntegerLiteral s)"

definition isNaN :: "string \<Rightarrow> bool" where
  "isNaN s = (let t = trim s in t \<noteq> [] \<and> \<not> isStrNumericLiteral t)"

text \<open>
  \<open>parseInt(id)\<close> with no radix: leading white space is dropped, then a sign, then a
  prefix \<open>0x\<close> or \<open>0X\<close> selects radix 16, and the longest run of digits of the radix is
  read; with no digit the result is NaN. The digits denote an integer, and the result is
  the Number nearest to it, a double: exact below \<open>2 ^ 53\<close>, rounded to 53 significant
  bits with ties to even above, and infinite from \<open>2 ^ 1024\<close> on. ECMAScript lets an
  engine approximate the integer past its twentieth significant digit; the model rounds
  the exact integer. Every finite result is an integer; \<open>-0\<close> and \<open>0\<close> are one number
  here.
\<close>

datatype number = NaN | Finite int | PosInfinity | NegInfinity

fun bitLength :: "nat \<Rightarrow> nat" where
  "bitLength n = (if n = 0 then 0 else Suc (bitLength (n div 2)))"

declare bitLength.simps [simp del]

definition numberValue :: "nat \<Rightarrow> nat option" where
  \<comment> \<open>the Number for a non-negative integer; \<open>None\<close> when it is infinite\<close>
  "numberValue n =
     (if n < 2 ^ 53 then Some n
      else (let e = bitLength n - 53;
                q = n div 2 ^ e;
                r = n mod 2 ^ e;
                half = 2 ^ (e - 1);
                q' = (if half < r \<or> (r = half \<and> odd q) then q + 1 else q);
                v = q' * 2 ^ e
            in if v < 2 ^ 1024 then Some v else None))"

definition digitVal :: "char \<Rightarrow> nat" where
  "digitVal c =
     (if isDigit c then code c - 48
      else if 97 \<le> code c \<and> code c \<le> 102 then code c - 87
      else code c - 55)"

definition isRadixDigit :: "nat \<Rightarrow> char \<Rightarrow> bool" where
  "isRadixDigit R c = (if R = 16 then isHexDigit c else isDigit c)"

definition mathInt :: "nat \<Rightarrow> string \<Rightarrow> nat" where
  "mathInt R Z = foldl (\<lambda>a c. a * R + digitVal c) 0 Z"

definition parseInt :: "string \<Rightarrow> number" where
  "parseInt s =
     (let S = trimStart s;
          sign = (case S of [] \<Rightarrow> 1 | c # _ \<Rightarrow> if c = CHR ''-'' then - 1 else (1::int));
          S1 = stripSign S;
          (R, S2) = (case S1 of
                       z # x # r \<Rightarrow>
                         if z = CHR ''0'' \<and> (x = CHR ''x'' \<or> x = CHR ''X'')
                         then (16, r) else (10, S1)
                     | _ \<Rightarrow> (10, S1));
          Z = takeWhile (isRadixDigit R) S2
      in if Z = [] then NaN
         else case numberValue (mathInt R Z) of
                None \<Rightarrow> if sign < 0 then NegInfinity else PosInfinity
              | Some v \<Rightarrow> Finite (sign * int v))"


section \<open>Request values and the validation schema (src/utils/globalZodSchema.js)\<close>

text \<open>
  The values of a parsed request body. A number is kept as an integer: the schema looks
  at the type of a value only, never at a number itself.
\<close>

datatype json =
    JNull
  | JBool bool
  | JNum int
  | JStr string
  | JArr "json list"
  | JObj "(string \<times> json) list"

text \<open>
  The part of zod 3 that \<open>userSchema\<close> uses. An issue has the path of the value it is
  about and a message. A value of the wrong type gives one issue, \<open>Required\<close> when the
  value is \<open>undefined\<close> (here \<open>None\<close>), and its checks are not run; the checks of a
  string all run. An object schema parses each key of its shape, collects the issues of
  all of them, and leaves every other key of the input out of its result.
\<close>

datatype issue = Issue (issuePath: "string list") (issueMessage: string)

fun parsedType :: "json option \<Rightarrow> string" where
  "parsedType None = ''undefined''"
| "parsedType (Some JNull) = ''null''"
| "parsedType (Some (JBool b)) = ''boolean''"
| "parsedType (Some (JNum n)) = ''number''"
| "parsedType (Some (JStr s)) = ''string''"
| "parsedType (Some (JArr xs)) = ''array''"
| "parsedType (Some (JObj kvs)) = ''object''"

definition invalidType :: "string \<Rightarrow> json option \<Rightarrow> string list \<Rightarrow> issue" where
  "invalidType expected v p =
     Issue p (case v of None \<Rightarrow> ''Required''
              | Some _ \<Rightarrow> ''Expected '' @ expected @ '', received '' @ parsedType v)"

definition isAsciiLetter :: "char \<Rightarrow> bool" where
  "isAsciiLetter c = ((65 \<le> code c \<and> code c \<le> 90) \<or> (97 \<le> code c \<and> code c \<le> 122))"

definition isAlnum :: "char \<Rightarrow> bool" where
  "isAlnum c = (isAsciiLetter c \<or> isDigit c)"

fun splitOn :: "char \<Rightarrow> string \<Rightarrow> string list" where
  \<comment> \<open>\<open>s.split(d)\<close> for a one-character separator\<close>
  "splitOn d [] = [[]]"
| "splitOn d (c # cs) =
     (case splitOn d cs of
        [] \<Rightarrow> [[c]]
      | p # ps \<Rightarrow> if c = d then [] # p # ps else (c # p) # ps)"

definition emailLocal :: "string \<Rightarrow> bool" where
  \<comment> \<open>\<open>(?!\.)([A-Z0-9_'+\-\.]*)[A-Z0-9_+-]\<close>\<close>
  "emailLocal l =
     (list_all (\<lambda>c. isAlnum c \<or> c = CHR ''_'' \<or> c = CHR 0x27 \<or> c \<in> set ''+-.'') l \<and>
      (case l of [] \<Rightarrow> False | c # _ \<Rightarrow> c \<noteq> CHR ''.'') \<and>
      (case rev l of [] \<Rightarrow> False | c # _ \<Rightarrow> isAlnum c \<or> c \<in> set ''_+-''))"

definition emailLabel :: "string \<Rightarrow> bool" where
  \<comment> \<open>\<open>[A-Z0-9][A-Z0-9\-]*\<close>\<close>
  "emailLabel l =
     (case l of [] \<Rightarrow> False
      | c # cs \<Rightarrow> isAlnum c \<and> list_all (\<lambda>c. isAlnum c \<or> c = CHR ''-'') cs)"

definition emailDomain :: "string \<Rightarrow> bool" where
  \<comment> \<open>\<open>([A-Z0-9][A-Z0-9\-]*\.)+[A-Z]{2,}\<close>\<close>
  "emailDomain d =
     (case rev (splitOn (CHR ''.'') d) of
        [] \<Rightarrow> False
      | tld # labels \<Rightarrow>
          labels \<noteq> [] \<and> list_all emailLabel labels \<and>
          2 \<le> length tld \<and> list_all isAsciiLetter tld)"

definition emailRegex :: "string \<Rightarrow> bool" where
  \<comment> \<open>zod 3.22's
     \<open>/^(?!\.)(?!.*\.\.)([A-Z0-9_'+\-\.]*)[A-Z0-9_+-]@([A-Z0-9][A-Z0-9\-]*\.)+[A-Z]{2,}$/i\<close>\<close>
  "emailRegex s =
     (case splitOn (CHR ''@'') s of
        [l, d] \<Rightarrow> emailLocal l \<and> \<not> includesStr s ''..'' \<and> emailDomain d
      | _ \<Rightarrow> False)"

datatype check = Min nat string | Email string

datatype zstring = ZString "check list"

datatype zobject = ZObject "(string \<times> zstring) list"

fun runCheck :: "string \<Rightarrow> string list \<Rightarrow> check \<Rightarrow> issue list" where
  "runCheck s p (Min n m) = (if length s < n then [Issue p m] else [])"
| "runCheck s p (Email m) = (if emailRegex s then [] else [Issue p m])"

fun parseString :: "zstring \<Rightarrow> json option \<Rightarrow> string list \<Rightarrow> issue list \<times> json option" where
  \<comment> \<open>the issues, and the parsed value when the input is a string\<close>
  "parseString (ZString checks) (Some (JStr s)) p =
     (concat (map (runCheck s p) checks), Some (JStr s))"
| "parseString (ZString checks) v p = ([invalidType ''string'' v p], None)"

datatype safeParseResult = Success json | Failure "issue list"

definition parseKey ::
  "(string \<times> json) list \<Rightarrow> string list \<Rightarrow> string \<times> zstring \<Rightarrow> string \<times> issue list \<times> json option" where
  "parseKey kvs p ks = (fst ks, parseString (snd ks) (map_of kvs (fst ks)) (p @ [fst ks]))"

fun safeParse :: "zobject \<Rightarrow> json option \<Rightarrow> safeParseResult" where
  "safeParse (ZObject shape) (Some (JObj kvs)) =
     (let results = map (parseKey kvs []) shape;
          issues = concat (map (\<lambda>r. fst (snd r)) results)
      in if issues = []
         then Success (JObj (List.map_filter (\<lambda>r. map_option (Pair (fst r)) (snd (snd r))) results))
         else Failure issues)"
| "safeParse (ZObject shape) v = Failure [invalidType ''object'' v []]"

definition userSchema :: zobject where
  "userSchema = ZObject
     [(''name'', ZString [Min 2 ''Name must be at least 2 characters'']),
      (''email'', ZString [Email ''Email must be valid''])]"

text \<open>
  \<open>ZodError.format()\<close>: each issue's message is pushed onto the \<open>_errors\<close> of the object
  its path leads to, and the objects on the way are created when missing. A path element
  named \<open>_errors\<close> would meet the array of that name; no key of \<open>userSchema\<close> is.
\<close>

fun addIssue :: "string list \<Rightarrow> string \<Rightarrow> formatted \<Rightarrow> formatted" where
  "addIssue [] m (Formatted es fs) = Formatted (es @ [m]) fs"
| "addIssue (el # rest) m (Formatted es fs) =
     Formatted es
       (AList.update el
          (addIssue rest m (case map_of fs el of None \<Rightarrow> Formatted [] [] | Some sub \<Rightarrow> sub)) fs)"

definition zodFormat :: "issue list \<Rightarrow> formatted" where
  "zodFormat issues = foldl (\<lambda>f i. addIssue (issuePath i) (issueMessage i) f) (Formatted [] []) issues"

definition formatZodError :: "issue list \<Rightarrow> (string \<times> string) list" where
  "formatZodError zodError = formatFormatted (zodFormat zodError)"


section \<open>The handlers (UserController, src/unnamed/part_000)\<close>

text \<open>
  A handler either responds at once or awaits one call of the persistence client and
  responds from its outcome: the promise resolves with a value or is rejected with an
  error, which the handler's \<open>catch\<close> receives. \<open>res.send()\<close> with no argument is a
  response with no body.
\<close>

record response =
  status :: nat
  body :: "json option"

record stringFilter =
  contains :: "string option"
  lte :: "string option"
  mode :: "string option"

datatype whereInput = OR "(string \<times> stringFilter) list"

datatype pcall =
    Create json
  | FindUnique number
  | Update number json
  | Delete number
  | FindMany "whereInput option"

record perror =
  message :: "string option"
  metaCause :: "string option"

datatype presult = Resolved json | Rejected perror

datatype action = Respond response | Await pcall "presult \<Rightarrow> response"

definition jsonResponse :: "nat \<Rightarrow> json \<Rightarrow> response" where
  \<comment> \<open>\<open>res.status(n).json(v)\<close>\<close>
  "jsonResponse n v = \<lparr>status = n, body = Some v\<rparr>"

definition errorBody :: "string \<Rightarrow> json" where
  \<comment> \<open>\<open>{ error: m }\<close>\<close>
  "errorBody m = JObj [(''error'', JStr m)]"

definition errorsBody :: "(string \<times> string) list \<Rightarrow> json" where
  \<comment> \<open>\<open>{ errors }\<close>\<close>
  "errorsBody errors = JObj [(''errors'', JObj (map (\<lambda>kv. (fst kv, JStr (snd kv))) errors))]"

definition orElse :: "string option \<Rightarrow> string \<Rightarrow> string" where
  \<comment> \<open>\<open>x || d\<close> for \<open>x\<close> a string or \<open>undefined\<close>: the empty string is falsy\<close>
  "orElse x d = (case x of None \<Rightarrow> d | Some m \<Rightarrow> if m = [] then d else m)"

fun truthy :: "json \<Rightarrow> bool" where
  "truthy JNull = False"
| "truthy (JBool b) = b"
| "truthy (JNum n) = (n \<noteq> 0)"
| "truthy (JStr s) = (s \<noteq> [])"
| "truthy (JArr xs) = True"
| "truthy (JObj kvs) = True"

definition invalidId :: "string option \<Rightarrow> bool" where
  \<comment> \<open>\<open>!id || isNaN(id)\<close>\<close>
  "invalidId i = (case i of None \<Rightarrow> True | Some s \<Rightarrow> s = [] \<or> isNaN s)"

definition parseIntParam :: "string option \<Rightarrow> number" where
  \<comment> \<open>\<open>parseInt(id)\<close>; \<open>parseInt(undefined)\<close> is NaN\<close>
  "parseIntParam i = (case i of None \<Rightarrow> NaN | Some s \<Rightarrow> parseInt s)"

definition createUser :: "json option \<Rightarrow> action" where
  "createUser reqBody =
     (case safeParse userSchema reqBody of
        Failure zodError \<Rightarrow> Respond (jsonResponse 400 (errorsBody (formatZodError zodError)))
      | Success data \<Rightarrow>
          Await (Create data)
            (\<lambda>r. case r of
                    Resolved user \<Rightarrow> jsonResponse 201 user
                  | Rejected error \<Rightarrow>
                      jsonResponse 500 (errorBody (orElse (message error) ''Internal Server Error''))))"

definition getUser :: "string option \<Rightarrow> action" where
  "getUser i =
     (if invalidId i then Respond (jsonResponse 400 (errorBody ''Invalid user ID''))
      else Await (FindUnique (parseIntParam i))
             (\<lambda>r. case r of
                     Resolved user \<Rightarrow>
                       if \<not> truthy user then jsonResponse 404 (errorBody ''User not found'')
                       else jsonResponse 200 user
                   | Rejected error \<Rightarrow> jsonResponse 500 (errorBody ''Internal Server Error'')))"

definition updateUser :: "string option \<Rightarrow> json option \<Rightarrow> action" where
  "updateUser i reqBody =
     (if invalidId i then Respond (jsonResponse 400 (errorBody ''Invalid user ID''))
      else case safeParse userSchema reqBody of
             Failure zodError \<Rightarrow> Respond (jsonResponse 400 (errorsBody (formatZodError zodError)))
           | Success data \<Rightarrow>
               Await (Update (parseIntParam i) data)
                 (\<lambda>r. case r of
                         Resolved user \<Rightarrow> jsonResponse 200 user
                       | Rejected error \<Rightarrow> jsonResponse 500 (errorBody ''Internal Server Error'')))"

definition deleteUser :: "string option \<Rightarrow> action" where
  "deleteUser i =
     (if invalidId i then Respond (jsonResponse 400 (errorBody ''Invalid user ID''))
      else Await (Delete (parseIntParam i))
             (\<lambda>r. case r of
                     Resolved _ \<Rightarrow> \<lparr>status = 204, body = None\<rparr>
                   | Rejected error \<Rightarrow>
                       jsonResponse 500 (errorBody (orElse (metaCause error) ''Internal Server Error''))))"

definition listUsers :: action where
  "listUsers =
     Await (FindMany None)
       (\<lambda>r. case r of
               Resolved users \<Rightarrow> jsonResponse 200 users
             | Rejected error \<Rightarrow> jsonResponse 500 (errorBody ''Internal Server Error''))"

definition searchUsers :: "json option \<Rightarrow> action" where
  \<comment> \<open>\<open>req.query.query\<close> is undefined, a string, an array or an object\<close>
  "searchUsers query =
     (case query of
        Some (JStr q) \<Rightarrow>
          if q = [] \<or> trim q = []
          then Respond (jsonResponse 400 (errorBody ''Query parameter is required''))
          else Await (FindMany (Some (OR
                   [(''name'', \<lparr>contains = Some q, lte = Some ''insensitive'', mode = None\<rparr>),
                    (''email'', \<lparr>contains = Some q, lte = Some ''insensitive'', mode = None\<rparr>)])))
                 (\<lambda>r. case r of
                         Resolved users \<Rightarrow> jsonResponse 200 users
                       | Rejected error \<Rightarrow> jsonResponse 500 (errorBody ''Internal Server Error''))
      | _ \<Rightarrow> Respond (jsonResponse 400 (errorBody ''Query parameter is required'')))"

fun run :: "(pcall \<Rightarrow> 'd \<Rightarrow> presult \<times> 'd) \<Rightarrow> action \<Rightarrow> 'd \<Rightarrow> response \<times> 'd" where
  \<comment> \<open>a handler against a persistence client over a database of type \<open>'d\<close>\<close>
  "run client (Respond r) d = (r, d)"
| "run client (Await c k) d = (case client c d of (r, d') \<Rightarrow> (k r, d'))"

fun callOf :: "action \<Rightarrow> pcall option" where
  "callOf (Respond r) = None"
| "callOf (Await c k) = Some c"


section \<open>The persistence client (src/model/prismaClient.js)\<close>

text \<open>
  The handlers import the client from \<open>../model/prismaClient.js\<close>, a module over the ORM
  whose code is outside this development. The spec has it as the ORM over a table of user
  records, each with a numeric identifier that the client assigns, a name and an email.
  The client below keeps the table as a list. It reads a filter by its keys, as the ORM
  does: \<open>contains\<close> asks for a substring, \<open>lte\<close> for a value that is at most the given
  one in the order of the strings, and \<open>mode: "insensitive"\<close> makes \<open>contains\<close> ignore
  case; without \<open>mode\<close> the database decides, which the parameter \<open>ci\<close> stands for. An
  identifier that is NaN or infinite is rejected before the table is read, and so is data
  without a name and an email.
\<close>

record user =
  userId :: int
  userName :: string
  userEmail :: string

record database =
  users :: "user list"
  nextId :: int

definition userJson :: "user \<Rightarrow> json" where
  "userJson u = JObj [(''id'', JNum (userId u)), (''name'', JStr (userName u)), (''email'', JStr (userEmail u))]"

definition dataFields :: "json \<Rightarrow> (string \<times> string) option" where
  "dataFields d =
     (case d of
        JObj kvs \<Rightarrow>
          (case (map_of kvs ''name'', map_of kvs ''email'') of
             (Some (JStr n), Some (JStr e)) \<Rightarrow> Some (n, e)
           | _ \<Rightarrow> None)
      | _ \<Rightarrow> None)"

definition validationError :: perror where
  "validationError = \<lparr>message = Some ''Invalid invocation'', metaCause = None\<rparr>"

definition notFoundError :: "string \<Rightarrow> perror" where
  "notFoundError cause = \<lparr>message = Some ''An operation failed because it depends on one or more records that were required but not found.'', metaCause = Some cause\<rparr>"

fun strLe :: "string \<Rightarrow> string \<Rightarrow> bool" where
  \<comment> \<open>the order of strings by code units\<close>
  "strLe [] t = True"
| "strLe (c # cs) [] = False"
| "strLe (c # cs) (d # ds) = (code c < code d \<or> (c = d \<and> strLe cs ds))"

definition fieldOf :: "user \<Rightarrow> string \<Rightarrow> string option" where
  "fieldOf u f =
     (if f = ''name'' then Some (userName u)
      else if f = ''email'' then Some (userEmail u) else None)"

definition matchesFilter :: "bool \<Rightarrow> stringFilter \<Rightarrow> string \<Rightarrow> bool" where
  "matchesFilter ci sf v =
     ((case contains sf of
         None \<Rightarrow> True
       | Some q \<Rightarrow>
           if ci \<or> mode sf = Some ''insensitive''
           then includesStr (toLowerCase v) (toLowerCase q)
           else includesStr v q) \<and>
      (case lte sf of
         None \<Rightarrow> True
       | Some b \<Rightarrow> if ci then strLe (toLowerCase v) (toLowerCase b) else strLe v b))"

fun matchesWhere :: "bool \<Rightarrow> whereInput \<Rightarrow> user \<Rightarrow> bool" where
  "matchesWhere ci (OR conds) u =
     list_ex (\<lambda>cond. case fieldOf u (fst cond) of
                       None \<Rightarrow> False
                     | Some v \<Rightarrow> matchesFilter ci (snd cond) v) conds"

definition findUser :: "int \<Rightarrow> user list \<Rightarrow> user option" where
  "findUser n us = List.find (\<lambda>u. userId u = n) us"

fun prisma :: "bool \<Rightarrow> pcall \<Rightarrow> database \<Rightarrow> presult \<times> database" where
  \<comment> \<open>Modelled from the spec: the persistence client of \<open>src/model/prismaClient.js\<close> and
     the ORM behind it, whose code is missing here.\<close>
  "prisma ci (Create d) db =
     (case dataFields d of
        None \<Rightarrow> (Rejected validationError, db)
      | Some (n, e) \<Rightarrow>
          (let u = \<lparr>userId = nextId db, userName = n, userEmail = e\<rparr>
           in (Resolved (userJson u), \<lparr>users = users db @ [u], nextId = nextId db + 1\<rparr>)))"
| "prisma ci (FindUnique (Finite n)) db =
     (case findUser n (users db) of
        None \<Rightarrow> (Resolved JNull, db)
      | Some u \<Rightarrow> (Resolved (userJson u), db))"
| "prisma ci (FindUnique v) db = (Rejected validationError, db)"
| "prisma ci (Update (Finite n) d) db =
     (case dataFields d of
        None \<Rightarrow> (Rejected validationError, db)
      | Some (nm, e) \<Rightarrow>
          (case findUser n (users db) of
             None \<Rightarrow> (Rejected (notFoundError ''Record to update not found.''), db)
           | Some u \<Rightarrow>
               (let u' = \<lparr>userId = n, userName = nm, userEmail = e\<rparr>
                in (Resolved (userJson u'),
                    db\<lparr>users := map (\<lambda>x. if userId x = n then u' else x) (users db)\<rparr>))))"
| "prisma ci (Update v d) db = (Rejected validationError, db)"
| "prisma ci (Delete (Finite n)) db =
     (case findUser n (users db) of
        None \<Rightarrow> (Rejected (notFoundError ''Record to delete does not exist.''), db)
      | Some u \<Rightarrow> (Resolved (userJson u), db\<lparr>users := filter (\<lambda>x. userId x \<noteq> n) (users db)\<rparr>))"
| "prisma ci (Delete v) db = (Rejected validationError, db)"
| "prisma ci (FindMany None) db = (Resolved (JArr (map userJson (users db))), db)"
| "prisma ci (FindMany (Some w)) db =
     (Resolved (JArr (map userJson (filter (matchesWhere ci w) (users db)))), db)"


section \<open>The router (src/routes/userRoutes.js)\<close>

text \<open>
  Routes are tried in the order of registration. A path matches a pattern segment by
  segment: a literal segment without regard to case, a parameter \<open>:name\<close> any non-empty
  segment, and one trailing slash is allowed. The value of a parameter is the segment
  passed through \<open>decodeURIComponent\<close>; when that throws, the request is answered 400 and
  no later route is tried. The first route whose path and method match handles the
  request; no handler passes the request on.
\<close>



















section \<open>Reading numbers\<close>

lemmas parseInt_eval = parseInt_def parseIntParam_def trimStart_def stripSign_def isRadixDigit_def
  isDigit_def isHexDigit_def code_def mathInt_def digitVal_def numberValue_def isWhiteSpace_def Let_def

lemma numberValue_exact: "n < 2 ^ 53 \<Longrightarrow> numberValue n = Some n"
  by (simp add: numberValue_def)

lemma parseInt_examples:
  "parseInt ''42'' = Finite 42"
  "parseInt ''-3.7'' = Finite (- 3)"
  "parseInt ''0x1F'' = Finite 31"
  "parseInt ''abc'' = NaN"
  by (simp_all add: parseInt_eval)

lemma parseInt_rounds:
  "parseInt ''9007199254740993'' = Finite 9007199254740992"
  by (simp add: parseInt_eval bitLength.simps)


section \<open>Properties of the error formatter\<close>

lemma map_of_formatField:
  "map_of (formatField f acc k) x =
     (if x = k \<and> k \<noteq> ''_errors'' \<and> (\<exists>sub. map_of (fields_of f) k = Some sub \<and> errors_of sub \<noteq> [])
      then Some (fieldMessage k (errors_of (the (map_of (fields_of f) k))))
      else map_of acc x)"
  by (auto simp: formatField_def fieldErrorsOf_def update_conv split: option.splits)

lemma map_of_foldl_formatField:
  "map_of (foldl (formatField f) acc ks) x =
     (if x \<in> set ks \<and> x \<noteq> ''_errors'' \<and> (\<exists>sub. map_of (fields_of f) x = Some sub \<and> errors_of sub \<noteq> [])
      then Some (fieldMessage x (errors_of (the (map_of (fields_of f) x))))
      else map_of acc x)"
proof (induction ks arbitrary: acc)
  case Nil
  then show ?case by simp
next
  case (Cons k ks)
  show ?case
    unfolding foldl.simps Cons.IH map_of_formatField by auto
qed

lemma map_of_formatFormatted:
  "map_of (formatFormatted f) field =
     (if field = ''_errors'' then None
      else case map_of (fields_of f) field of
             None \<Rightarrow> None
           | Some sub \<Rightarrow>
               if errors_of sub = [] then None
               else Some (fieldMessage field (errors_of sub)))"
proof -
  have "map_of (fields_of f) field \<noteq> None \<Longrightarrow> field \<in> set (ownKeys f)"
    by (auto simp: ownKeys_def map_of_eq_None_iff)
  then show ?thesis
    unfolding formatFormatted_def map_of_foldl_formatField
    by (auto split: option.splits)
qed

lemma distinct_foldl_formatField:
  "distinct (map fst acc) \<Longrightarrow> distinct (map fst (foldl (formatField f) acc ks))"
  by (induction ks arbitrary: acc) (auto simp: formatField_def distinct_update split: option.splits)

lemma errors_of_addIssue:
  "errors_of (addIssue p m f) = (if p = [] then errors_of f @ [m] else errors_of f)"
  by (cases f; cases p) simp_all

lemma fieldErrorsOf_addIssue:
  "(case fieldErrorsOf (addIssue p m f) k of None \<Rightarrow> [] | Some es \<Rightarrow> es)
     = (case fieldErrorsOf f k of None \<Rightarrow> [] | Some es \<Rightarrow> es) @ (if p = [k] then [m] else [])"
proof (cases f)
  case (Formatted es fs)
  show ?thesis
  proof (cases p)
    case Nil
    then show ?thesis by (simp add: Formatted fieldErrorsOf_def)
  next
    case (Cons el rest)
    then show ?thesis
      by (auto simp: Formatted fieldErrorsOf_def update_conv errors_of_addIssue split: option.splits)
  qed
qed

lemma fieldErrorsOf_foldl:
  "(case fieldErrorsOf (foldl (\<lambda>f i. addIssue (issuePath i) (issueMessage i) f) f0 issues) k of
      None \<Rightarrow> [] | Some es \<Rightarrow> es)
     = (case fieldErrorsOf f0 k of None \<Rightarrow> [] | Some es \<Rightarrow> es)
       @ map issueMessage (filter (\<lambda>i. issuePath i = [k]) issues)"
  by (induction issues arbitrary: f0) (simp_all add: fieldErrorsOf_addIssue)

lemma fieldErrorsOf_zodFormat:
  "(case fieldErrorsOf (zodFormat issues) k of None \<Rightarrow> [] | Some es \<Rightarrow> es)
     = map issueMessage (filter (\<lambda>i. issuePath i = [k]) issues)"
  unfolding zodFormat_def fieldErrorsOf_foldl by (simp add: fieldErrorsOf_def)

lemma map_of_formatZodError:
  "map_of (formatZodError issues) field =
     (if field = ''_errors'' then None
      else (let ms = map issueMessage (filter (\<lambda>i. issuePath i = [field]) issues)
            in if ms = [] then None else Some (fieldMessage field ms)))"
proof -
  have "map_of (formatFormatted f) field =
      (if field = ''_errors'' then None
       else if (case fieldErrorsOf f field of None \<Rightarrow> [] | Some es \<Rightarrow> es) = [] then None
       else Some (fieldMessage field (case fieldErrorsOf f field of None \<Rightarrow> [] | Some es \<Rightarrow> es)))" for f
    by (simp add: map_of_formatFormatted fieldErrorsOf_def split: option.splits)
  from this [of "zodFormat issues"] show ?thesis
    unfolding formatZodError_def fieldErrorsOf_zodFormat by (simp add: Let_def)
qed

text \<open>
  Claim C3. The formatter maps every field that carries one or more messages to these
  messages joined with a comma and a space, or to \<open>The <field> field is required\<close> when
  the joined string, in lower case and trimmed, is \<open>required\<close>; a field with no message
  has no entry, the messages at the top level change nothing, and no key occurs twice.
  This holds of the loop on every formatted value, and of \<open>formatZodError\<close> on every list
  of issues, where the messages of a field are those of the issues whose path is the
  field. The formatted value \<open>{name: {_errors: ["required"]}}\<close> gives
  \<open>{name: "The name field is required"}\<close>.
\<close>

theorem formatZodError_policy:
  "map_of (formatFormatted f) field =
     (if field = ''_errors'' then None
      else case map_of (fields_of f) field of
             None \<Rightarrow> None
           | Some sub \<Rightarrow>
               if errors_of sub = [] then None
               else Some (let error = join '', '' (errors_of sub)
                          in if trim (toLowerCase error) = ''required''
                             then ''The '' @ field @ '' field is required''
                             else error))
   \<and> map_of (formatZodError issues) field =
     (if field = ''_errors'' then None
      else (let ms = map issueMessage (filter (\<lambda>i. issuePath i = [field]) issues)
            in if ms = [] then None
               else Some (let error = join '', '' ms
                          in if trim (toLowerCase error) = ''required''
                             then ''The '' @ field @ '' field is required''
                             else error)))
   \<and> distinct (map fst (formatFormatted f))
   \<and> formatFormatted (Formatted es (fields_of f)) = formatFormatted f
   \<and> formatFormatted (Formatted [] [(''name'', Formatted [''required''] [])])
        = [(''name'', ''The name field is required'')]"
proof (intro conjI)
  show "map_of (formatFormatted f) field =
     (if field = ''_errors'' then None
      else case map_of (fields_of f) field of
             None \<Rightarrow> None
           | Some sub \<Rightarrow>
               if errors_of sub = [] then None
               else Some (let error = join '', '' (errors_of sub)
                          in if trim (toLowerCase error) = ''required''
                             then ''The '' @ field @ '' field is required''
                             else error))"
    by (simp add: map_of_formatFormatted fieldMessage_def split: option.splits)
  show "map_of (formatZodError issues) field =
     (if field = ''_errors'' then None
      else (let ms = map issueMessage (filter (\<lambda>i. issuePath i = [field]) issues)
            in if ms = [] then None
               else Some (let error = join '', '' ms
                          in if trim (toLowerCase error) = ''required''
                             then ''The '' @ field @ '' field is required''
                             else error)))"
    unfolding map_of_formatZodError fieldMessage_def ..
  show "distinct (map fst (formatFormatted f))"
    by (simp add: formatFormatted_def distinct_foldl_formatField)
  have "formatField (Formatted es (fields_of f)) = formatField f"
    by (intro ext) (simp add: formatField_def fieldErrorsOf_def)
  then show "formatFormatted (Formatted es (fields_of f)) = formatFormatted f"
    by (simp add: formatFormatted_def ownKeys_def)
  show "formatFormatted (Formatted [] [(''name'', Formatted [''required''] [])])
        = [(''name'', ''The name field is required'')]"
    by (simp add: formatFormatted_def ownKeys_def formatField_def fieldErrorsOf_def fieldMessage_def
      trim_def toLowerCase_def lowerChar_def isWhiteSpace_def code_def Let_def)
qed

theorem formatZodError_policy_witness:
  "map_of (formatFormatted (Formatted [''top'']
      [(''name'', Formatted [''Required''] []),
       (''email'', Formatted [''Email must be valid'', ''Too long''] []),
       (''age'', Formatted [] [])])) ''name'' = Some ''The name field is required''
   \<and> map_of (formatFormatted (Formatted [''top'']
      [(''name'', Formatted [''Required''] []),
       (''email'', Formatted [''Email must be valid'', ''Too long''] []),
       (''age'', Formatted [] [])])) ''email'' = Some ''Email must be valid, Too long''
   \<and> map_of (formatFormatted (Formatted [''top'']
      [(''name'', Formatted [''Required''] []),
       (''email'', Formatted [''Email must be valid'', ''Too long''] []),
       (''age'', Formatted [] [])])) ''age'' = None
   \<and> map_of (formatZodError [Issue [] ''top'', Issue [''name''] ''Required'',
        Issue [''email''] ''Email must be valid'']) ''name'' = Some ''The name field is required''"
proof -
  let ?f = "Formatted [''top'']
      [(''name'', Formatted [''Required''] []),
       (''email'', Formatted [''Email must be valid'', ''Too long''] []),
       (''age'', Formatted [] [])]"
  let ?z = "[Issue [] ''top'', Issue [''name''] ''Required'', Issue [''email''] ''Email must be valid'']"
  have low: "trim (toLowerCase ''Required'') = ''required''"
    "trim (toLowerCase ''Email must be valid, Too long'') \<noteq> ''required''"
    by code_simp+
  have "map_of (formatFormatted ?f) ''name'' = Some ''The name field is required''"
    using formatZodError_policy [of ?f "''name''"] low by simp
  moreover have "map_of (formatFormatted ?f) ''email'' = Some ''Email must be valid, Too long''"
    using formatZodError_policy [of ?f "''email''"] low by simp
  moreover have "map_of (formatFormatted ?f) ''age'' = None"
    using formatZodError_policy [of ?f "''age''"] by simp
  moreover have "map_of (formatZodError ?z) ''name'' = Some ''The name field is required''"
    using formatZodError_policy [of ?f "''name''" ?z] low by simp
  ultimately show ?thesis by simp
qed


section \<open>Properties of the validation schema\<close>

lemma parseString_min:
  "parseString (ZString [Min n m]) v p =
     (case v of
        Some (JStr s) \<Rightarrow> (if length s < n then [Issue p m] else [], Some (JStr s))
      | _ \<Rightarrow> ([invalidType ''string'' v p], None))"
  by (cases "(ZString [Min n m], v, p)" rule: parseString.cases) auto

lemma parseString_email:
  "parseString (ZString [Email m]) v p =
     (case v of
        Some (JStr s) \<Rightarrow> (if emailRegex s then [] else [Issue p m], Some (JStr s))
      | _ \<Rightarrow> ([invalidType ''string'' v p], None))"
  by (cases "(ZString [Email m], v, p)" rule: parseString.cases) auto

lemma parseString_value:
  "fst (parseString sch v p) = [] \<Longrightarrow> snd (parseString sch v p) = v"
  by (cases "(sch, v, p)" rule: parseString.cases) auto

lemma safeParse_userSchema_object:
  "safeParse userSchema (Some (JObj kvs)) =
     (let ni = fst (parseString (ZString [Min 2 ''Name must be at least 2 characters'']) (map_of kvs ''name'') [''name'']);
          ei = fst (parseString (ZString [Email ''Email must be valid'']) (map_of kvs ''email'') [''email''])
      in if ni = [] \<and> ei = []
         then Success (JObj [(''name'', the (map_of kvs ''name'')), (''email'', the (map_of kvs ''email''))])
         else Failure (ni @ ei))"
proof -
  let ?pn = "parseString (ZString [Min 2 ''Name must be at least 2 characters'']) (map_of kvs ''name'') [''name'']"
  let ?pe = "parseString (ZString [Email ''Email must be valid'']) (map_of kvs ''email'') [''email'']"
  show ?thesis
  proof (cases "fst ?pn = [] \<and> fst ?pe = []")
    case True
    then have "snd ?pn = map_of kvs ''name''" "snd ?pe = map_of kvs ''email''"
      by (simp_all add: parseString_value)
    moreover from True have "map_of kvs ''name'' \<noteq> None" "map_of kvs ''email'' \<noteq> None"
      by (auto simp: parseString_min parseString_email split: option.splits json.splits)
    ultimately show ?thesis using True
      by (auto simp: userSchema_def parseKey_def Let_def List.map_filter_simps)
  next
    case False
    then show ?thesis
      by (auto simp: userSchema_def parseKey_def Let_def)
  qed
qed

lemma safeParse_userSchema_other:
  "(\<forall>kvs. v \<noteq> Some (JObj kvs)) \<Longrightarrow> safeParse userSchema v = Failure [invalidType ''object'' v []]"
  by (cases "(userSchema, v)" rule: safeParse.cases) (auto simp: userSchema_def)


lemma name_issues:
  "fst (parseString (ZString [Min 2 ''Name must be at least 2 characters'']) (map_of kvs ''name'') [''name''])
      = (case map_of kvs ''name'' of
               None \<Rightarrow> [Issue [''name''] ''Required'']
             | Some (JStr s) \<Rightarrow>
                 if length s < 2 then [Issue [''name''] ''Name must be at least 2 characters'']
                 else []
             | Some v \<Rightarrow> [Issue [''name''] (''Expected string, received '' @ parsedType (Some v))])"
  by (simp add: parseString_min invalidType_def split: option.splits json.splits)

lemma email_issues:
  "fst (parseString (ZString [Email ''Email must be valid'']) (map_of kvs ''email'') [''email''])
      = (case map_of kvs ''email'' of
               None \<Rightarrow> [Issue [''email''] ''Required'']
             | Some (JStr s) \<Rightarrow>
                 if emailRegex s then [] else [Issue [''email''] ''Email must be valid'']
             | Some v \<Rightarrow> [Issue [''email''] (''Expected string, received '' @ parsedType (Some v))])"
  by (simp add: parseString_email invalidType_def split: option.splits json.splits)

text \<open>
  Claim C4, as the schema has it. On an object, validation fails the name exactly when it
  is not a string or is a string shorter than 2 characters, and the email exactly when it
  is not a string or is a string that is no email address. The messages
  \<open>Name must be at least 2 characters\<close> and \<open>Email must be valid\<close> are those of a string
  that fails its check; a missing value gives \<open>Required\<close> and a value of another type
  \<open>Expected string, received\<close> and its type. One call reports the name and the email
  together, the name first. An input that is no object fails as a whole, with one issue at
  the top level and none for a field.
\<close>

theorem userSchema_validation:
  "safeParse userSchema (Some (JObj kvs)) =
     (let nameIssues =
            (case map_of kvs ''name'' of
               None \<Rightarrow> [Issue [''name''] ''Required'']
             | Some (JStr s) \<Rightarrow>
                 if length s < 2 then [Issue [''name''] ''Name must be at least 2 characters'']
                 else []
             | Some v \<Rightarrow> [Issue [''name''] (''Expected string, received '' @ parsedType (Some v))]);
          emailIssues =
            (case map_of kvs ''email'' of
               None \<Rightarrow> [Issue [''email''] ''Required'']
             | Some (JStr s) \<Rightarrow>
                 if emailRegex s then [] else [Issue [''email''] ''Email must be valid'']
             | Some v \<Rightarrow> [Issue [''email''] (''Expected string, received '' @ parsedType (Some v))])
      in if nameIssues = [] \<and> emailIssues = []
         then Success (JObj [(''name'', the (map_of kvs ''name'')),
                             (''email'', the (map_of kvs ''email''))])
         else Failure (nameIssues @ emailIssues))
   \<and> safeParse userSchema None = Failure [Issue [] ''Required'']
   \<and> ((\<forall>kvs. v \<noteq> JObj kvs) \<longrightarrow>
        safeParse userSchema (Some v)
          = Failure [Issue [] (''Expected object, received '' @ parsedType (Some v))])"
proof (intro conjI impI)
  show "safeParse userSchema (Some (JObj kvs)) =
     (let nameIssues =
            (case map_of kvs ''name'' of
               None \<Rightarrow> [Issue [''name''] ''Required'']
             | Some (JStr s) \<Rightarrow>
                 if length s < 2 then [Issue [''name''] ''Name must be at least 2 characters'']
                 else []
             | Some v \<Rightarrow> [Issue [''name''] (''Expected string, received '' @ parsedType (Some v))]);
          emailIssues =
            (case map_of kvs ''email'' of
               None \<Rightarrow> [Issue [''email''] ''Required'']
             | Some (JStr s) \<Rightarrow>
                 if emailRegex s then [] else [Issue [''email''] ''Email must be valid'']
             | Some v \<Rightarrow> [Issue [''email''] (''Expected string, received '' @ parsedType (Some v))])
      in if nameIssues = [] \<and> emailIssues = []
         then Success (JObj [(''name'', the (map_of kvs ''name'')),
                             (''email'', the (map_of kvs ''email''))])
         else Failure (nameIssues @ emailIssues))"
    unfolding safeParse_userSchema_object name_issues email_issues ..
  show "safeParse userSchema None = Failure [Issue [] ''Required'']"
    by (simp add: safeParse_userSchema_other invalidType_def)
  assume "\<forall>kvs. v \<noteq> JObj kvs"
  then show "safeParse userSchema (Some v)
          = Failure [Issue [] (''Expected object, received '' @ parsedType (Some v))]"
    by (simp add: safeParse_userSchema_other invalidType_def)
qed

theorem userSchema_validation_witness:
  "safeParse userSchema (Some (JObj [(''name'', JStr ''A''), (''email'', JStr ''nope'')]))
     = Failure [Issue [''name''] ''Name must be at least 2 characters'',
                Issue [''email''] ''Email must be valid'']
   \<and> safeParse userSchema (Some (JArr []))
     = Failure [Issue [] ''Expected object, received array'']"
proof -
  have re: "\<not> emailRegex ''nope''"
    by code_simp
  show ?thesis
    using userSchema_validation [of "[(''name'', JStr ''A''), (''email'', JStr ''nope'')]" "JArr []"] re
    by simp
qed

text \<open>
  The claim as the spec words it gives the two messages to every failure of a field, and
  a failure of each invalid field to every input. A name that is a number, a missing email
  and a body that is a number show otherwise.
\<close>

theorem userSchema_message_counterexample:
  "safeParse userSchema (Some (JObj [(''name'', JNum 5), (''email'', JStr ''a@b.com'')]))
     = Failure [Issue [''name''] ''Expected string, received number'']
   \<and> safeParse userSchema (Some (JObj [(''name'', JStr ''Al'')]))
     = Failure [Issue [''email''] ''Required'']
   \<and> safeParse userSchema (Some (JNum 7))
     = Failure [Issue [] ''Expected object, received number'']"
  by code_simp


section \<open>Rejected request bodies\<close>

lemma name_issues_shape:
  "\<exists>m. fst (parseString (ZString [Min 2 ''Name must be at least 2 characters'']) (map_of kvs ''name'') [''name''])
      = (if (\<exists>s. map_of kvs ''name'' = Some (JStr s) \<and> 2 \<le> length s) then [] else [Issue [''name''] m])"
  unfolding name_issues by (auto split: option.splits json.splits)

lemma email_issues_shape:
  "\<exists>m. fst (parseString (ZString [Email ''Email must be valid'']) (map_of kvs ''email'') [''email''])
      = (if (\<exists>s. map_of kvs ''email'' = Some (JStr s) \<and> emailRegex s) then [] else [Issue [''email''] m])"
  unfolding email_issues by (auto split: option.splits json.splits)

lemma formatZodError_fields:
  "formatZodError ((if a then [] else [Issue [''name''] m1]) @ (if b then [] else [Issue [''email''] m2]))
     = (if a then [] else [(''name'', fieldMessage ''name'' [m1])])
       @ (if b then [] else [(''email'', fieldMessage ''email'' [m2])])"
  by (simp add: formatZodError_def zodFormat_def formatFormatted_def ownKeys_def formatField_def fieldErrorsOf_def)

lemma formatZodError_top: "formatZodError [Issue [] m] = []"
  by (simp add: formatZodError_def zodFormat_def formatFormatted_def ownKeys_def formatField_def fieldErrorsOf_def)

lemma failure_object_keys:
  assumes "safeParse userSchema (Some (JObj kvs)) = Failure zodError"
  shows "map fst (formatZodError zodError)
           = (if (\<exists>s. map_of kvs ''name'' = Some (JStr s) \<and> 2 \<le> length s) then [] else [''name''])
             @ (if (\<exists>s. map_of kvs ''email'' = Some (JStr s) \<and> emailRegex s) then [] else [''email''])"
proof -
  obtain m1 m2 where
    n: "fst (parseString (ZString [Min 2 ''Name must be at least 2 characters'']) (map_of kvs ''name'') [''name''])
      = (if (\<exists>s. map_of kvs ''name'' = Some (JStr s) \<and> 2 \<le> length s) then [] else [Issue [''name''] m1])"
    and e: "fst (parseString (ZString [Email ''Email must be valid'']) (map_of kvs ''email'') [''email''])
      = (if (\<exists>s. map_of kvs ''email'' = Some (JStr s) \<and> emailRegex s) then [] else [Issue [''email''] m2])"
    using name_issues_shape email_issues_shape by metis
  from assms have "zodError =
      (if (\<exists>s. map_of kvs ''name'' = Some (JStr s) \<and> 2 \<le> length s) then [] else [Issue [''name''] m1])
      @ (if (\<exists>s. map_of kvs ''email'' = Some (JStr s) \<and> emailRegex s) then [] else [Issue [''email''] m2])"
    unfolding safeParse_userSchema_object n e by (auto simp: Let_def split: if_splits)
  then show ?thesis
    by (simp only: formatZodError_fields) simp
qed

lemma failure_other_empty:
  assumes "safeParse userSchema b = Failure zodError" and "\<forall>kvs. b \<noteq> Some (JObj kvs)"
  shows "formatZodError zodError = []"
  using assms by (cases b) (auto simp: safeParse_userSchema_other formatZodError_top invalidType_def)

lemma run_Respond: "run client (Respond r) d = (r, d)"
  by simp

text \<open>
  Claim C2, as the handlers have it. When the body fails validation, \<open>createUser\<close>
  responds 400 with \<open>{errors}\<close>, the formatted issues, and so does \<open>updateUser\<close> when the
  identifier passes its check, which comes first and answers 400 with
  \<open>{error: "Invalid user ID"}\<close> otherwise. Neither calls the persistence client, so
  the database is the same after the request, whatever the client. For an object the
  formatted issues have one entry for each invalid field and no other; for any other body
  they are empty.
\<close>

theorem invalid_body_rejected:
  assumes "safeParse userSchema b = Failure zodError"
  shows "createUser b = Respond (jsonResponse 400 (errorsBody (formatZodError zodError)))
     \<and> updateUser i b = Respond (jsonResponse 400
          (if invalidId i then errorBody ''Invalid user ID''
           else errorsBody (formatZodError zodError)))
     \<and> run client (createUser b) db = (jsonResponse 400 (errorsBody (formatZodError zodError)), db)
     \<and> snd (run client (updateUser i b) db) = db
     \<and> (\<forall>kvs. b = Some (JObj kvs) \<longrightarrow>
          map fst (formatZodError zodError)
            = (if (\<exists>s. map_of kvs ''name'' = Some (JStr s) \<and> 2 \<le> length s) then [] else [''name''])
              @ (if (\<exists>s. map_of kvs ''email'' = Some (JStr s) \<and> emailRegex s) then [] else [''email'']))
     \<and> ((\<forall>kvs. b \<noteq> Some (JObj kvs)) \<longrightarrow> formatZodError zodError = [])"
proof -
  have c: "createUser b = Respond (jsonResponse 400 (errorsBody (formatZodError zodError)))"
    using assms by (simp add: createUser_def)
  have u: "updateUser i b = Respond (jsonResponse 400
          (if invalidId i then errorBody ''Invalid user ID''
           else errorsBody (formatZodError zodError)))"
    using assms by (simp add: updateUser_def)
  have k: "\<forall>kvs. b = Some (JObj kvs) \<longrightarrow>
          map fst (formatZodError zodError)
            = (if (\<exists>s. map_of kvs ''name'' = Some (JStr s) \<and> 2 \<le> length s) then [] else [''name''])
              @ (if (\<exists>s. map_of kvs ''email'' = Some (JStr s) \<and> emailRegex s) then [] else [''email''])"
    using assms failure_object_keys by blast
  have o: "(\<forall>kvs. b \<noteq> Some (JObj kvs)) \<longrightarrow> formatZodError zodError = []"
    using assms failure_other_empty by blast
  show ?thesis
    unfolding c u run_Respond using k o by simp
qed

theorem invalid_body_rejected_witness:
  "createUser (Some (JObj [(''name'', JStr ''A''), (''role'', JStr ''admin'')]))
     = Respond (jsonResponse 400 (JObj [(''errors'',
         JObj [(''name'', JStr ''Name must be at least 2 characters''),
               (''email'', JStr ''The email field is required'')])]))
   \<and> updateUser (Some ''7'') (Some (JObj [(''name'', JStr ''A''), (''role'', JStr ''admin'')]))
     = Respond (jsonResponse 400 (JObj [(''errors'',
         JObj [(''name'', JStr ''Name must be at least 2 characters''),
               (''email'', JStr ''The email field is required'')])]))"
proof -
  let ?b = "Some (JObj [(''name'', JStr ''A''), (''role'', JStr ''admin'')])"
  let ?z = "[Issue [''name''] ''Name must be at least 2 characters'', Issue [''email''] ''Required'']"
  have p: "safeParse userSchema ?b = Failure ?z"
    by code_simp
  have f: "errorsBody (formatZodError ?z) = JObj [(''errors'',
         JObj [(''name'', JStr ''Name must be at least 2 characters''),
               (''email'', JStr ''The email field is required'')])]"
    by code_simp
  have i: "\<not> invalidId (Some ''7'')"
    by code_simp
  show ?thesis
    using invalid_body_rejected [OF p, where i = "Some ''7''" and client = "prisma False"
        and db = "\<lparr>users = [], nextId = 1\<rparr>"] f i
    by simp
qed

text \<open>
  The claim as the spec words it fails for \<open>updateUser\<close> with an identifier that is no
  number, where the body of the response is not \<open>{errors}\<close>, and for a body that is an
  array, where no field has a message.
\<close>

theorem invalid_body_counterexample:
  "safeParse userSchema (Some (JObj [])) = Failure [Issue [''name''] ''Required'', Issue [''email''] ''Required'']
   \<and> updateUser (Some ''abc'') (Some (JObj []))
       = Respond (jsonResponse 400 (JObj [(''error'', JStr ''Invalid user ID'')]))
   \<and> safeParse userSchema (Some (JArr [])) = Failure [Issue [] ''Expected object, received array'']
   \<and> createUser (Some (JArr [])) = Respond (jsonResponse 400 (JObj [(''errors'', JObj [])]))"
proof -
  have p: "safeParse userSchema (Some (JObj [])) = Failure [Issue [''name''] ''Required'', Issue [''email''] ''Required'']"
    "safeParse userSchema (Some (JArr [])) = Failure [Issue [] ''Expected object, received array'']"
    by code_simp+
  have i: "invalidId (Some ''abc'')"
    by code_simp
  have f: "errorsBody (formatZodError [Issue [] ''Expected object, received array'']) = JObj [(''errors'', JObj [])]"
    by code_simp
  show ?thesis
    using p i f by (simp add: updateUser_def createUser_def errorBody_def)
qed


section \<open>Data that reaches the persistence client\<close>

lemma safeParse_userSchema_cong:
  assumes "map_of kvs1 ''name'' = map_of kvs2 ''name''" and "map_of kvs1 ''email'' = map_of kvs2 ''email''"
  shows "safeParse userSchema (Some (JObj kvs1)) = safeParse userSchema (Some (JObj kvs2))"
  by (simp only: safeParse_userSchema_object assms)

lemma safeParse_userSchema_Success:
  assumes "safeParse userSchema b = Success d"
  shows "\<exists>kvs n e. b = Some (JObj kvs) \<and> map_of kvs ''name'' = Some (JStr n)
           \<and> map_of kvs ''email'' = Some (JStr e)
           \<and> d = JObj [(''name'', JStr n), (''email'', JStr e)]"
proof (cases "\<exists>kvs. b = Some (JObj kvs)")
  case True
  then obtain kvs where b: "b = Some (JObj kvs)" by blast
  let ?ni = "fst (parseString (ZString [Min 2 ''Name must be at least 2 characters'']) (map_of kvs ''name'') [''name''])"
  let ?ei = "fst (parseString (ZString [Email ''Email must be valid'']) (map_of kvs ''email'') [''email''])"
  from assms have ok: "?ni = []" "?ei = []"
    and d: "d = JObj [(''name'', the (map_of kvs ''name'')), (''email'', the (map_of kvs ''email''))]"
    unfolding b safeParse_userSchema_object by (simp_all add: Let_def split: if_splits)
  from ok(1) obtain n where n: "map_of kvs ''name'' = Some (JStr n)"
    unfolding name_issues by (auto split: option.splits json.splits if_splits)
  from ok(2) obtain e where e: "map_of kvs ''email'' = Some (JStr e)"
    unfolding email_issues by (auto split: option.splits json.splits if_splits)
  show ?thesis using b d n e by simp
next
  case False
  then show ?thesis using assms by (simp add: safeParse_userSchema_other)
qed

lemma createUser_call:
  "callOf (createUser b) = Some c \<Longrightarrow> \<exists>d. safeParse userSchema b = Success d \<and> c = Create d"
  by (cases "safeParse userSchema b") (simp_all add: createUser_def)

lemma updateUser_call:
  "callOf (updateUser i b) = Some c \<Longrightarrow>
     \<exists>d. safeParse userSchema b = Success d \<and> c = Update (parseIntParam i) d"
  by (cases "safeParse userSchema b"; cases "invalidId i") (simp_all add: updateUser_def)

text \<open>
  Claim C10. Two objects with the same name and the same email get the same action from
  \<open>createUser\<close> and from \<open>updateUser\<close>, whatever else they hold: the same call with the
  same data, or the same response. Whenever a handler calls the persistence client, the
  data is the object of the body's name and email, both strings, and nothing else.
\<close>

theorem unknown_fields_stripped:
  "(map_of kvs1 ''name'' = map_of kvs2 ''name'' \<and> map_of kvs1 ''email'' = map_of kvs2 ''email'' \<longrightarrow>
      createUser (Some (JObj kvs1)) = createUser (Some (JObj kvs2))
      \<and> updateUser i (Some (JObj kvs1)) = updateUser i (Some (JObj kvs2)))
   \<and> (callOf (createUser b) = Some c \<longrightarrow>
        (\<exists>kvs n e. b = Some (JObj kvs) \<and> map_of kvs ''name'' = Some (JStr n)
           \<and> map_of kvs ''email'' = Some (JStr e)
           \<and> c = Create (JObj [(''name'', JStr n), (''email'', JStr e)])))
   \<and> (callOf (updateUser i b) = Some c \<longrightarrow>
        (\<exists>kvs n e. b = Some (JObj kvs) \<and> map_of kvs ''name'' = Some (JStr n)
           \<and> map_of kvs ''email'' = Some (JStr e)
           \<and> c = Update (parseIntParam i) (JObj [(''name'', JStr n), (''email'', JStr e)])))"
proof (intro conjI impI)
  assume a: "map_of kvs1 ''name'' = map_of kvs2 ''name'' \<and> map_of kvs1 ''email'' = map_of kvs2 ''email''"
  then have s: "safeParse userSchema (Some (JObj kvs1)) = safeParse userSchema (Some (JObj kvs2))"
    using safeParse_userSchema_cong by blast
  show "createUser (Some (JObj kvs1)) = createUser (Some (JObj kvs2))"
    unfolding createUser_def s ..
  show "updateUser i (Some (JObj kvs1)) = updateUser i (Some (JObj kvs2))"
    unfolding updateUser_def s ..
next
  assume "callOf (createUser b) = Some c"
  then obtain d where "safeParse userSchema b = Success d" and "c = Create d"
    using createUser_call by blast
  then show "\<exists>kvs n e. b = Some (JObj kvs) \<and> map_of kvs ''name'' = Some (JStr n)
           \<and> map_of kvs ''email'' = Some (JStr e)
           \<and> c = Create (JObj [(''name'', JStr n), (''email'', JStr e)])"
    using safeParse_userSchema_Success by blast
next
  assume "callOf (updateUser i b) = Some c"
  then obtain d where "safeParse userSchema b = Success d" and "c = Update (parseIntParam i) d"
    using updateUser_call by blast
  then show "\<exists>kvs n e. b = Some (JObj kvs) \<and> map_of kvs ''name'' = Some (JStr n)
           \<and> map_of kvs ''email'' = Some (JStr e)
           \<and> c = Update (parseIntParam i) (JObj [(''name'', JStr n), (''email'', JStr e)])"
    using safeParse_userSchema_Success by blast
qed

theorem unknown_fields_stripped_witness:
  "createUser (Some (JObj [(''name'', JStr ''Al''), (''email'', JStr ''a@b.com''), (''role'', JStr ''admin'')]))
     = createUser (Some (JObj [(''id'', JNum 99), (''email'', JStr ''a@b.com''), (''name'', JStr ''Al'')]))
   \<and> callOf (createUser (Some (JObj [(''name'', JStr ''Al''), (''email'', JStr ''a@b.com''), (''role'', JStr ''admin'')])))
     = Some (Create (JObj [(''name'', JStr ''Al''), (''email'', JStr ''a@b.com'')]))
   \<and> callOf (updateUser (Some ''7'') (Some (JObj [(''name'', JStr ''Al''), (''email'', JStr ''a@b.com''), (''role'', JStr ''admin'')])))
     = Some (Update (Finite 7) (JObj [(''name'', JStr ''Al''), (''email'', JStr ''a@b.com'')]))"
proof -
  let ?k1 = "[(''name'', JStr ''Al''), (''email'', JStr ''a@b.com''), (''role'', JStr ''admin'')]"
  let ?k2 = "[(''id'', JNum 99), (''email'', JStr ''a@b.com''), (''name'', JStr ''Al'')]"
  have p: "safeParse userSchema (Some (JObj ?k1))
      = Success (JObj [(''name'', JStr ''Al''), (''email'', JStr ''a@b.com'')])"
    by code_simp
  have v: "\<not> invalidId (Some ''7'')"
    by code_simp
  have n: "parseIntParam (Some ''7'') = Finite 7"
    by (simp add: parseInt_eval)
  have c: "callOf (createUser (Some (JObj ?k1))) = Some (Create (JObj [(''name'', JStr ''Al''), (''email'', JStr ''a@b.com'')]))"
    "callOf (updateUser (Some ''7'') (Some (JObj ?k1))) = Some (Update (Finite 7) (JObj [(''name'', JStr ''Al''), (''email'', JStr ''a@b.com'')]))"
    using p v n by (simp_all add: createUser_def updateUser_def)
  show ?thesis
    using unknown_fields_stripped [of ?k1 ?k2 "Some ''7''" "Some (JObj ?k1)"
        "Create (JObj [(''name'', JStr ''Al''), (''email'', JStr ''a@b.com'')])"] c
    by simp
qed


section \<open>Identifiers\<close>

lemma invalid_id_responses:
  assumes "invalidId i"
  shows "getUser i = Respond (jsonResponse 400 (errorBody ''Invalid user ID''))"
    and "updateUser i b = Respond (jsonResponse 400 (errorBody ''Invalid user ID''))"
    and "deleteUser i = Respond (jsonResponse 400 (errorBody ''Invalid user ID''))"
  using assms by (simp_all add: getUser_def updateUser_def deleteUser_def)

lemma valid_id_calls:
  assumes "\<not> invalidId i"
  shows "callOf (getUser i) = Some (FindUnique (parseIntParam i))"
    and "callOf (deleteUser i) = Some (Delete (parseIntParam i))"
    and "safeParse userSchema b = Success d \<Longrightarrow> callOf (updateUser i b) = Some (Update (parseIntParam i) d)"
  using assms by (simp_all add: getUser_def updateUser_def deleteUser_def)

text \<open>
  Claim C5 at concrete identifiers. The check of the identifier is \<open>isNaN(id)\<close>, the
  value passed on is \<open>parseInt(id)\<close>, and the two read a string differently. The
  identifier \<open>3.7\<close> is accepted and reaches the persistence call as 3, cut down to an
  integer as the claim says. The identifier \<open>.5\<close> is accepted by each of the three
  handlers and reaches the persistence call as NaN, and \<open>1e3\<close>, the number 1000, is
  accepted and reaches it as 1.
\<close>

theorem accepted_id_not_truncated:
  "\<not> invalidId (Some ''.5'')
   \<and> callOf (getUser (Some ''.5'')) = Some (FindUnique NaN)
   \<and> callOf (deleteUser (Some ''.5'')) = Some (Delete NaN)
   \<and> callOf (updateUser (Some ''.5'') (Some (JObj [(''name'', JStr ''Al''), (''email'', JStr ''a@b.com'')])))
       = Some (Update NaN (JObj [(''name'', JStr ''Al''), (''email'', JStr ''a@b.com'')]))
   \<and> \<not> invalidId (Some ''1e3'')
   \<and> callOf (getUser (Some ''1e3'')) = Some (FindUnique (Finite 1))
   \<and> \<not> invalidId (Some ''3.7'')
   \<and> callOf (getUser (Some ''3.7'')) = Some (FindUnique (Finite 3))"
proof -
  have v: "\<not> invalidId (Some ''.5'')" "\<not> invalidId (Some ''1e3'')" "\<not> invalidId (Some ''3.7'')"
    by code_simp+
  have n: "parseIntParam (Some ''.5'') = NaN" "parseIntParam (Some ''1e3'') = Finite 1"
    "parseIntParam (Some ''3.7'') = Finite 3"
    by (simp_all add: parseInt_eval)
  have p: "safeParse userSchema (Some (JObj [(''name'', JStr ''Al''), (''email'', JStr ''a@b.com'')]))
      = Success (JObj [(''name'', JStr ''Al''), (''email'', JStr ''a@b.com'')])"
    by code_simp
  show ?thesis
    using v n p by (simp add: valid_id_calls)
qed


section \<open>Looking a user up\<close>

lemma getUser_Await:
  assumes "\<not> invalidId i"
  shows "getUser i = Await (FindUnique (parseIntParam i))
           (\<lambda>r. case r of
                   Resolved user \<Rightarrow>
                     if \<not> truthy user then jsonResponse 404 (errorBody ''User not found'')
                     else jsonResponse 200 user
                 | Rejected error \<Rightarrow> jsonResponse 500 (errorBody ''Internal Server Error''))"
  using assms by (simp add: getUser_def)

text \<open>
  Claim C6 at concrete identifiers. In a table whose only user has the identifier 1,
  \<open>getUser\<close> with the identifier \<open>1e3\<close>, the number 1000, responds 200 with that user,
  though no user has the identifier 1000: the lookup is by \<open>parseInt\<close> of the identifier,
  which is 1. With the identifier \<open>.5\<close>, which passes the check and parses to NaN, the
  lookup is rejected and the response is 500, neither 404 nor 200.
\<close>

theorem getUser_other_identifier:
  "\<not> invalidId (Some ''1e3'')
   \<and> callOf (getUser (Some ''1e3'')) = Some (FindUnique (Finite 1))
   \<and> findUser 1000 [\<lparr>userId = 1, userName = ''Al'', userEmail = ''a@b.com''\<rparr>] = None
   \<and> run (prisma False) (getUser (Some ''1e3''))
        \<lparr>users = [\<lparr>userId = 1, userName = ''Al'', userEmail = ''a@b.com''\<rparr>], nextId = 2\<rparr>
      = (jsonResponse 200 (JObj [(''id'', JNum 1), (''name'', JStr ''Al''), (''email'', JStr ''a@b.com'')]),
         \<lparr>users = [\<lparr>userId = 1, userName = ''Al'', userEmail = ''a@b.com''\<rparr>], nextId = 2\<rparr>)
   \<and> \<not> invalidId (Some ''.5'')
   \<and> run (prisma False) (getUser (Some ''.5''))
        \<lparr>users = [\<lparr>userId = 1, userName = ''Al'', userEmail = ''a@b.com''\<rparr>], nextId = 2\<rparr>
      = (jsonResponse 500 (JObj [(''error'', JStr ''Internal Server Error'')]),
         \<lparr>users = [\<lparr>userId = 1, userName = ''Al'', userEmail = ''a@b.com''\<rparr>], nextId = 2\<rparr>)"
proof -
  have v: "\<not> invalidId (Some ''1e3'')" "\<not> invalidId (Some ''.5'')"
    by code_simp+
  have n: "parseIntParam (Some ''1e3'') = Finite 1" "parseIntParam (Some ''.5'') = NaN"
    by (simp_all add: parseInt_eval)
  show ?thesis
    using v by (simp add: getUser_Await n findUser_def userJson_def errorBody_def)
qed


section \<open>Deleting a user\<close>

lemma deleteUser_Await:
  assumes "\<not> invalidId i"
  shows "deleteUser i = Await (Delete (parseIntParam i))
           (\<lambda>r. case r of
                   Resolved _ \<Rightarrow> \<lparr>status = 204, body = None\<rparr>
                 | Rejected error \<Rightarrow>
                     jsonResponse 500 (errorBody (orElse (metaCause error) ''Internal Server Error'')))"
  using assms by (simp add: deleteUser_def)

text \<open>
  Claim C7. For an accepted identifier \<open>deleteUser\<close> asks the client to delete by
  \<open>parseInt\<close> of the identifier; when the call resolves, whatever the value, it responds
  204 with no body, and when the call is rejected it responds 500 with \<open>{error}\<close>, the
  error's \<open>meta.cause\<close> when there is one and it is not empty, and
  \<open>Internal Server Error\<close> otherwise.
\<close>

theorem deleteUser_outcome:
  assumes "\<not> invalidId i"
  shows "\<exists>k. deleteUser i = Await (Delete (parseIntParam i)) k
           \<and> (\<forall>v. k (Resolved v) = \<lparr>status = 204, body = None\<rparr>)
           \<and> (\<forall>e. k (Rejected e)
                  = jsonResponse 500 (errorBody
                      (case metaCause e of
                         None \<Rightarrow> ''Internal Server Error''
                       | Some c \<Rightarrow> if c = [] then ''Internal Server Error'' else c)))"
  unfolding deleteUser_Await [OF assms]
  by (intro exI conjI) (rule refl, simp_all add: orElse_def)

theorem deleteUser_outcome_witness:
  "run (prisma False) (deleteUser (Some ''2''))
      \<lparr>users = [\<lparr>userId = 2, userName = ''Al'', userEmail = ''a@b.com''\<rparr>], nextId = 3\<rparr>
     = (\<lparr>status = 204, body = None\<rparr>, \<lparr>users = [], nextId = 3\<rparr>)
   \<and> run (prisma False) (deleteUser (Some ''5''))
      \<lparr>users = [\<lparr>userId = 2, userName = ''Al'', userEmail = ''a@b.com''\<rparr>], nextId = 3\<rparr>
     = (jsonResponse 500 (JObj [(''error'', JStr ''Record to delete does not exist.'')]),
        \<lparr>users = [\<lparr>userId = 2, userName = ''Al'', userEmail = ''a@b.com''\<rparr>], nextId = 3\<rparr>)
   \<and> run (prisma False) (deleteUser (Some '' ''))
      \<lparr>users = [\<lparr>userId = 2, userName = ''Al'', userEmail = ''a@b.com''\<rparr>], nextId = 3\<rparr>
     = (jsonResponse 500 (JObj [(''error'', JStr ''Internal Server Error'')]),
        \<lparr>users = [\<lparr>userId = 2, userName = ''Al'', userEmail = ''a@b.com''\<rparr>], nextId = 3\<rparr>)"
proof -
  let ?db = "\<lparr>users = [\<lparr>userId = 2, userName = ''Al'', userEmail = ''a@b.com''\<rparr>], nextId = 3\<rparr>"
  have v: "\<not> invalidId (Some ''2'')" "\<not> invalidId (Some ''5'')" "\<not> invalidId (Some '' '')"
    by code_simp+
  have n: "parseIntParam (Some ''2'') = Finite 2" "parseIntParam (Some ''5'') = Finite 5"
    "parseIntParam (Some '' '') = NaN"
    by (simp_all add: parseInt_eval)
  obtain k2 where k2: "deleteUser (Some ''2'') = Await (Delete (parseIntParam (Some ''2''))) k2"
      "\<forall>v. k2 (Resolved v) = \<lparr>status = 204, body = None\<rparr>"
    using deleteUser_outcome [OF v(1)] by blast
  obtain k5 where k5: "deleteUser (Some ''5'') = Await (Delete (parseIntParam (Some ''5''))) k5"
      "\<forall>e. k5 (Rejected e) = jsonResponse 500 (errorBody
                      (case metaCause e of
                         None \<Rightarrow> ''Internal Server Error''
                       | Some c \<Rightarrow> if c = [] then ''Internal Server Error'' else c))"
    using deleteUser_outcome [OF v(2)] by blast
  obtain k0 where k0: "deleteUser (Some '' '') = Await (Delete (parseIntParam (Some '' ''))) k0"
      "\<forall>e. k0 (Rejected e) = jsonResponse 500 (errorBody
                      (case metaCause e of
                         None \<Rightarrow> ''Internal Server Error''
                       | Some c \<Rightarrow> if c = [] then ''Internal Server Error'' else c))"
    using deleteUser_outcome [OF v(3)] by blast
  have "run (prisma False) (deleteUser (Some ''2'')) ?db = (\<lparr>status = 204, body = None\<rparr>, \<lparr>users = [], nextId = 3\<rparr>)"
    unfolding k2(1) n using k2(2) by (simp add: findUser_def)
  moreover have "run (prisma False) (deleteUser (Some ''5'')) ?db
     = (jsonResponse 500 (JObj [(''error'', JStr ''Record to delete does not exist.'')]), ?db)"
    unfolding k5(1) n using k5(2) by (simp add: findUser_def notFoundError_def errorBody_def)
  moreover have "run (prisma False) (deleteUser (Some '' '')) ?db
     = (jsonResponse 500 (JObj [(''error'', JStr ''Internal Server Error'')]), ?db)"
    unfolding k0(1) n using k0(2) by (simp add: validationError_def errorBody_def)
  ultimately show ?thesis by simp
qed


section \<open>Persistence failures\<close>

text \<open>
  Claim C8, as the handlers have it. Whenever the call of the persistence client is
  rejected, the handler responds 500 with \<open>{error}\<close>: the message of the failure, or
  \<open>Internal Server Error\<close> when it has none, in \<open>createUser\<close>; the failure's
  \<open>meta.cause\<close>, or \<open>Internal Server Error\<close> when it has none, in \<open>deleteUser\<close>; and
  always \<open>Internal Server Error\<close> in \<open>getUser\<close>, \<open>updateUser\<close>, \<open>listUsers\<close> and
  \<open>searchUsers\<close>.
\<close>

theorem persistence_failure_responses:
  "(safeParse userSchema b = Success d \<and> client (Create d) db = (Rejected e, db') \<longrightarrow>
      run client (createUser b) db
        = (jsonResponse 500 (errorBody
             (case message e of
                None \<Rightarrow> ''Internal Server Error''
              | Some m \<Rightarrow> if m = [] then ''Internal Server Error'' else m)), db'))
   \<and> (\<not> invalidId i \<and> client (FindUnique (parseIntParam i)) db = (Rejected e, db') \<longrightarrow>
      run client (getUser i) db = (jsonResponse 500 (errorBody ''Internal Server Error''), db'))
   \<and> (\<not> invalidId i \<and> safeParse userSchema b = Success d
        \<and> client (Update (parseIntParam i) d) db = (Rejected e, db') \<longrightarrow>
      run client (updateUser i b) db = (jsonResponse 500 (errorBody ''Internal Server Error''), db'))
   \<and> (\<not> invalidId i \<and> client (Delete (parseIntParam i)) db = (Rejected e, db') \<longrightarrow>
      run client (deleteUser i) db
        = (jsonResponse 500 (errorBody
             (case metaCause e of
                None \<Rightarrow> ''Internal Server Error''
              | Some c \<Rightarrow> if c = [] then ''Internal Server Error'' else c)), db'))
   \<and> (client (FindMany None) db = (Rejected e, db') \<longrightarrow>
      run client listUsers db = (jsonResponse 500 (errorBody ''Internal Server Error''), db'))
   \<and> (callOf (searchUsers query) = Some c \<and> client c db = (Rejected e, db') \<longrightarrow>
      run client (searchUsers query) db = (jsonResponse 500 (errorBody ''Internal Server Error''), db'))"
proof (intro conjI impI; (elim conjE)?)
  assume "safeParse userSchema b = Success d" and "client (Create d) db = (Rejected e, db')"
  then show "run client (createUser b) db
        = (jsonResponse 500 (errorBody
             (case message e of
                None \<Rightarrow> ''Internal Server Error''
              | Some m \<Rightarrow> if m = [] then ''Internal Server Error'' else m)), db')"
    by (simp add: createUser_def orElse_def)
next
  assume "\<not> invalidId i" and "client (FindUnique (parseIntParam i)) db = (Rejected e, db')"
  then show "run client (getUser i) db = (jsonResponse 500 (errorBody ''Internal Server Error''), db')"
    by (simp add: getUser_def)
next
  assume "\<not> invalidId i" and "safeParse userSchema b = Success d"
    and "client (Update (parseIntParam i) d) db = (Rejected e, db')"
  then show "run client (updateUser i b) db = (jsonResponse 500 (errorBody ''Internal Server Error''), db')"
    by (simp add: updateUser_def)
next
  assume "\<not> invalidId i" and "client (Delete (parseIntParam i)) db = (Rejected e, db')"
  then show "run client (deleteUser i) db
        = (jsonResponse 500 (errorBody
             (case metaCause e of
                None \<Rightarrow> ''Internal Server Error''
              | Some c \<Rightarrow> if c = [] then ''Internal Server Error'' else c)), db')"
    by (simp add: deleteUser_def orElse_def)
next
  assume "client (FindMany None) db = (Rejected e, db')"
  then show "run client listUsers db = (jsonResponse 500 (errorBody ''Internal Server Error''), db')"
    by (simp add: listUsers_def)
next
  assume c: "callOf (searchUsers query) = Some c" and r: "client c db = (Rejected e, db')"
  from c obtain k where "searchUsers query = Await c k"
    and "k (Rejected e) = jsonResponse 500 (errorBody ''Internal Server Error'')"
    by (auto simp: searchUsers_def split: option.splits json.splits if_splits)
  with r show "run client (searchUsers query) db = (jsonResponse 500 (errorBody ''Internal Server Error''), db')"
    by simp
qed


theorem persistence_failure_responses_witness:
  "run (\<lambda>c d. (Rejected \<lparr>message = Some ''connection lost'', metaCause = Some ''no such record''\<rparr>, d))
       (createUser (Some (JObj [(''name'', JStr ''Al''), (''email'', JStr ''a@b.com'')]))) (0::nat)
     = (jsonResponse 500 (errorBody ''connection lost''), 0)
   \<and> run (\<lambda>c d. (Rejected \<lparr>message = Some ''connection lost'', metaCause = Some ''no such record''\<rparr>, d))
       (deleteUser (Some ''1'')) (0::nat)
     = (jsonResponse 500 (errorBody ''no such record''), 0)
   \<and> run (\<lambda>c d. (Rejected \<lparr>message = Some ''connection lost'', metaCause = Some ''no such record''\<rparr>, d))
       (updateUser (Some ''1'') (Some (JObj [(''name'', JStr ''Al''), (''email'', JStr ''a@b.com'')]))) (0::nat)
     = (jsonResponse 500 (errorBody ''Internal Server Error''), 0)
   \<and> run (\<lambda>c d. (Rejected \<lparr>message = Some ''connection lost'', metaCause = Some ''no such record''\<rparr>, d))
       (searchUsers (Some (JStr ''al''))) (0::nat)
     = (jsonResponse 500 (errorBody ''Internal Server Error''), 0)"
proof -
  let ?b = "Some (JObj [(''name'', JStr ''Al''), (''email'', JStr ''a@b.com'')])"
  let ?e = "\<lparr>message = Some ''connection lost'', metaCause = Some ''no such record''\<rparr>"
  let ?w = "FindMany (Some (OR
                   [(''name'', \<lparr>contains = Some ''al'', lte = Some ''insensitive'', mode = None\<rparr>),
                    (''email'', \<lparr>contains = Some ''al'', lte = Some ''insensitive'', mode = None\<rparr>)]))"
  have p: "safeParse userSchema ?b = Success (JObj [(''name'', JStr ''Al''), (''email'', JStr ''a@b.com'')])"
    by code_simp
  have v: "\<not> invalidId (Some ''1'')"
    by code_simp
  have q: "callOf (searchUsers (Some (JStr ''al''))) = Some ?w"
    by code_simp
  show ?thesis
    using persistence_failure_responses [where b = ?b
        and d = "JObj [(''name'', JStr ''Al''), (''email'', JStr ''a@b.com'')]"
        and client = "\<lambda>c d. (Rejected ?e, d)" and db = "0::nat" and db' = "0::nat" and e = ?e
        and i = "Some ''1''" and query = "Some (JStr ''al'')" and c = ?w] p v q
    by simp
qed

text \<open>
  The claim as the spec words it gives the failure's message in every handler.
  \<open>getUser\<close> and \<open>deleteUser\<close> answer a failure that has a message with
  \<open>Internal Server Error\<close>.
\<close>

theorem persistence_failure_counterexample:
  "run (\<lambda>c d. (Rejected \<lparr>message = Some ''connection lost'', metaCause = None\<rparr>, d))
       (getUser (Some ''1'')) (0::nat)
     = (jsonResponse 500 (JObj [(''error'', JStr ''Internal Server Error'')]), 0)
   \<and> run (\<lambda>c d. (Rejected \<lparr>message = Some ''connection lost'', metaCause = None\<rparr>, d))
       (deleteUser (Some ''1'')) (0::nat)
     = (jsonResponse 500 (JObj [(''error'', JStr ''Internal Server Error'')]), 0)"
proof -
  have v: "\<not> invalidId (Some ''1'')"
    by code_simp
  show ?thesis
    using v by (simp add: getUser_def deleteUser_def orElse_def errorBody_def)
qed


section \<open>Dispatch\<close>









section \<open>Searching\<close>

text \<open>
  Claim C1 at a concrete request. For the query \<open>al\<close> the handler asks for the users
  whose name or email contains \<open>al\<close> and is at most the string \<open>insensitive\<close>: the value
  \<open>insensitive\<close> stands under the key \<open>lte\<close>, and no \<open>mode\<close> is given. The user
  \<open>sally\<close>, whose name contains \<open>al\<close> and comes after \<open>insensitive\<close>, is not in the
  result, whether or not the database compares without regard to case.
\<close>

theorem searchUsers_lte_drops_match:
  "callOf (searchUsers (Some (JStr ''al'')))
     = Some (FindMany (Some (OR
         [(''name'', \<lparr>contains = Some ''al'', lte = Some ''insensitive'', mode = None\<rparr>),
          (''email'', \<lparr>contains = Some ''al'', lte = Some ''insensitive'', mode = None\<rparr>)])))
   \<and> includesStr (toLowerCase ''sally'') (toLowerCase ''al'')
   \<and> run (prisma False) (searchUsers (Some (JStr ''al'')))
         \<lparr>users = [\<lparr>userId = 1, userName = ''sally'', userEmail = ''sally@x.com''\<rparr>], nextId = 2\<rparr>
       = (jsonResponse 200 (JArr []),
          \<lparr>users = [\<lparr>userId = 1, userName = ''sally'', userEmail = ''sally@x.com''\<rparr>], nextId = 2\<rparr>)
   \<and> run (prisma True) (searchUsers (Some (JStr ''al'')))
         \<lparr>users = [\<lparr>userId = 1, userName = ''sally'', userEmail = ''sally@x.com''\<rparr>], nextId = 2\<rparr>
       = (jsonResponse 200 (JArr []),
          \<lparr>users = [\<lparr>userId = 1, userName = ''sally'', userEmail = ''sally@x.com''\<rparr>], nextId = 2\<rparr>)"
  by code_simp

lemma searchUsers_missing_query:
  "searchUsers None = Respond (jsonResponse 400 (errorBody ''Query parameter is required''))"
  "searchUsers (Some (JStr [])) = Respond (jsonResponse 400 (errorBody ''Query parameter is required''))"
  "trim q = [] \<Longrightarrow> searchUsers (Some (JStr q)) = Respond (jsonResponse 400 (errorBody ''Query parameter is required''))"
  "\<forall>q. v \<noteq> JStr q \<Longrightarrow> searchUsers (Some v) = Respond (jsonResponse 400 (errorBody ''Query parameter is required''))"
  by (auto simp: searchUsers_def split: json.splits)

end
